theory Spec2Isabelle
  imports Main
begin

section \<open>JavaScript values\<close>

text \<open>
  The values that flow through GoodForm: field values read from the page (a string, or an
  array of strings when several elements share a name), validation results (an array of
  messages, a valid message, \<open>undefined\<close>) and the entries of a server payload
  (\<open>null\<close>, a string, an array, or anything else JSON can hold). Numbers are left out
  (they are floating point); \<open>Obj\<close> stands for any object that is not an array, whose
  properties the program never reads; \<open>Fun n\<close> is a built-in function whose
  \<open>length\<close> is \<open>n\<close>, which is what reading a name such as \<open>toString\<close> from an
  object gives. Strings are ASCII strings.
\<close>

datatype jsval = Undefined | Null | Bool bool | Str string | Arr "jsval list" | Obj | Fun nat

datatype error = TypeError

text \<open>\<open>Array.prototype.join\<close> on strings.\<close>

fun join :: "string \<Rightarrow> string list \<Rightarrow> string" where
  "join sep [] = []"
| "join sep [x] = x"
| "join sep (x # y # ys) = x @ sep @ join sep (y # ys)"

text \<open>
  \<open>ToString\<close>: an array is its elements joined by a comma, where \<open>undefined\<close> and
  \<open>null\<close> elements give the empty string. The text of a built-in function is the
  host's; it is taken to be the one below.
\<close>

fun to_string :: "jsval \<Rightarrow> string" where
  "to_string Undefined = ''undefined''"
| "to_string Null = ''null''"
| "to_string (Bool b) = (if b then ''true'' else ''false'')"
| "to_string (Str s) = s"
| "to_string (Arr xs) =
     join '','' (map (\<lambda>x. if x = Undefined \<or> x = Null then [] else to_string x) xs)"
| "to_string Obj = ''[object Object]''"
| "to_string (Fun n) = ''function () { [native code] }''"

text \<open>\<open>ToBoolean\<close>: what \<open>if (x)\<close>, \<open>!x\<close>, \<open>x || y\<close> and \<open>x && y\<close> test.\<close>

fun truthy :: "jsval \<Rightarrow> bool" where
  "truthy Undefined = False"
| "truthy Null = False"
| "truthy (Bool b) = b"
| "truthy (Str s) = (s \<noteq> [])"
| "truthy (Arr xs) = True"
| "truthy Obj = True"
| "truthy (Fun n) = True"

text \<open>\<open>x == undefined\<close>: loose equality holds for \<open>undefined\<close> and \<open>null\<close> only.\<close>

fun eq_undefined :: "jsval \<Rightarrow> bool" where
  "eq_undefined Undefined = True"
| "eq_undefined Null = True"
| "eq_undefined v = False"

text \<open>
  \<open>x == ""\<close>: a string is compared as it is, an array through its \<open>ToString\<close>, a
  boolean through its number (\<open>false\<close> is \<open>0\<close>, and so is \<open>""\<close>); \<open>null\<close> and
  \<open>undefined\<close> equal only each other.
\<close>

fun eq_empty_string :: "jsval \<Rightarrow> bool" where
  "eq_empty_string Undefined = False"
| "eq_empty_string Null = False"
| "eq_empty_string (Bool b) = (\<not> b)"
| "eq_empty_string (Str s) = (s = [])"
| "eq_empty_string (Arr xs) = (to_string (Arr xs) = [])"
| "eq_empty_string Obj = False"
| "eq_empty_string (Fun n) = False"

text \<open>The regular expression \<open>/^\s*$/\<close> on a string: every character is white space.\<close>

definition is_space :: "char \<Rightarrow> bool" where
  "is_space c = (c = CHR '' '' \<or> c = CHR 0x09 \<or> c = CHR 0x0A \<or> c = CHR 0x0B
                 \<or> c = CHR 0x0C \<or> c = CHR 0x0D)"

definition blank :: "string \<Rightarrow> bool" where
  "blank s = list_all is_space s"

text \<open>Decimal digits of a number, as \<open>String.prototype.replace\<close> inserts them.\<close>

fun decimal :: "nat \<Rightarrow> string" where
  "decimal n =
     (if n < 10 then [char_of (48 + n)] else decimal (n div 10) @ [char_of (48 + n mod 10)])"

declare decimal.simps [simp del]

text \<open>\<open>s.replace(/%d/g, r)\<close>: every occurrence of \<open>%d\<close>, left to right.\<close>

fun replace_percent_d :: "string \<Rightarrow> string \<Rightarrow> string" where
  "replace_percent_d (a # b # cs) r =
     (if a = CHR ''%'' \<and> b = CHR ''d'' then r @ replace_percent_d cs r
      else a # replace_percent_d (b # cs) r)"
| "replace_percent_d cs r = cs"

text \<open>\<open>/p/.test(s)\<close> for a literal pattern \<open>p\<close>: \<open>p\<close> occurs somewhere in \<open>s\<close>.\<close>

fun starts_with :: "string \<Rightarrow> string \<Rightarrow> bool" where
  "starts_with s [] = True"
| "starts_with [] (p # ps) = False"
| "starts_with (c # cs) (p # ps) = (c = p \<and> starts_with cs ps)"

fun contains :: "string \<Rightarrow> string \<Rightarrow> bool" where
  "contains [] p = (p = [])"
| "contains (c # cs) p = (starts_with (c # cs) p \<or> contains cs p)"

section \<open>Objects as property lists\<close>

text \<open>
  A JavaScript object used as a dictionary is a list of (key, value) pairs in insertion
  order, which is the order \<open>for (name in obj)\<close> visits them in (for keys that are not
  array indices); writing an existing key keeps its position. The dictionaries of the
  program are object literals, so a key that they do not hold themselves is read from
  \<open>Object.prototype\<close>: \<open>Object_prototype\<close> lists the functions that ECMAScript puts
  there, with their \<open>length\<close> (a host may add others, which are left out). They are
  not enumerable: \<open>for (name in obj)\<close> does not visit them. Reading a key that is in
  neither place gives \<open>undefined\<close>.
\<close>

type_synonym 'a obj = "(string \<times> 'a) list"

fun put :: "string \<Rightarrow> 'a \<Rightarrow> 'a obj \<Rightarrow> 'a obj" where
  "put k v [] = [(k, v)]"
| "put k v ((k', v') # ps) = (if k' = k then (k, v) # ps else (k', v') # put k v ps)"

definition Object_prototype :: "nat obj" where
  "Object_prototype =
     [(''constructor'', 1), (''toString'', 0), (''toLocaleString'', 0), (''valueOf'', 0),
      (''hasOwnProperty'', 1), (''isPrototypeOf'', 1), (''propertyIsEnumerable'', 1)]"

definition inherited :: "string \<Rightarrow> jsval" where
  "inherited k = (case map_of Object_prototype k of None \<Rightarrow> Undefined | Some n \<Rightarrow> Fun n)"

definition get :: "jsval obj \<Rightarrow> string \<Rightarrow> jsval" where
  "get m k = (case map_of m k of None \<Rightarrow> inherited k | Some v \<Rightarrow> v)"

section \<open>The page\<close>

text \<open>
  The document is the list of its elements in document order. A form control has a
  \<open>name\<close> (\<open>Some\<close>, possibly empty), other elements such as the validation spans have
  none; \<open>node_form\<close> is the id of the form that owns a control (empty when there is
  none).
\<close>

record node =
  node_id :: string
  node_name :: "string option"
  node_value :: string
  node_checked :: bool
  node_type :: string
  node_form :: string
  className :: string
  innerHTML :: string

definition getElementById :: "string \<Rightarrow> node list \<Rightarrow> node option" where
  "getElementById i doc = find (\<lambda>n. node_id n = i) doc"

definition getElementsByName :: "string \<Rightarrow> node list \<Rightarrow> node list" where
  "getElementsByName name doc = filter (\<lambda>n. node_name n = Some name) doc"

text \<open>
  \<open>GoodForm.Helpers.getValuesByName\<close>: the values of the elements of that name (of the
  given form only, when \<open>form\<close> is the id of an element); an unchecked check box or radio
  button counts only when it is alone, as the empty string. One value is returned as a
  string, several as an array, none as \<open>undefined\<close>.
\<close>

definition getValuesByName :: "string \<Rightarrow> string \<Rightarrow> node list \<Rightarrow> jsval" where
  "getValuesByName name form doc =
     (let els = getElementsByName name doc;
          len = length els;
          form' = (if form \<noteq> [] then getElementById form doc else None);
          values = concat (map (\<lambda>el.
            if (case form' of None \<Rightarrow> True | Some f \<Rightarrow> node_form el = node_id f)
            then (if node_checked el
                       \<or> \<not> (contains (node_type el) ''checkbox'' \<or> contains (node_type el) ''radio'')
                  then [node_value el]
                  else if len = 1 then [[]] else [])
            else []) els)
      in if length values > 1 then Arr (map Str values)
         else (case values of [] \<Rightarrow> Undefined | v # _ \<Rightarrow> Str v))"

text \<open>
  \<open>GoodForm.Helpers.extractName\<close> of a string: the name of the element with that id when
  there is one, the string itself otherwise.
\<close>

definition extractName :: "string \<Rightarrow> node list \<Rightarrow> jsval" where
  "extractName input doc =
     (case getElementById input doc of
        Some el \<Rightarrow> (case node_name el of Some n \<Rightarrow> Str n | None \<Rightarrow> Undefined)
      | None \<Rightarrow> Str input)"

text \<open>\<open>GoodForm.Helpers.underscore\<close>.\<close>

definition is_word :: "char \<Rightarrow> bool" where
  "is_word c = (let n = (of_char c :: nat) in
     (48 \<le> n \<and> n \<le> 57) \<or> (65 \<le> n \<and> n \<le> 90) \<or> (97 \<le> n \<and> n \<le> 122) \<or> n = 95)"

definition toLowerCase :: "string \<Rightarrow> string" where
  "toLowerCase s = map (\<lambda>c. let n = (of_char c :: nat) in
     if 65 \<le> n \<and> n \<le> 90 then char_of (n + 32) else c) s"

fun collapse :: "bool \<Rightarrow> string \<Rightarrow> string" where
  "collapse in_run [] = []"
| "collapse in_run (c # cs) =
     (if is_word c then c # collapse False cs
      else if in_run then collapse True cs
      else CHR ''_'' # collapse True cs)"

definition underscore :: "string \<Rightarrow> string" where
  "underscore s =
     rev (dropWhile (\<lambda>c. c = CHR ''_'')
       (rev (dropWhile (\<lambda>c. c = CHR ''_'') (collapse False (toLowerCase s)))))"

text \<open>
  \<open>GoodForm.Helpers.parseResponse\<close>: \<open>undefined\<close> and \<open>null\<close> (both \<open>== undefined\<close>)
  are still loading, a non-empty array is an error, anything else is valid.
\<close>

definition parseResponse :: "jsval \<Rightarrow> string" where
  "parseResponse response =
     (if eq_undefined response then ''loading''
      else if (case response of Arr xs \<Rightarrow> xs \<noteq> [] | _ \<Rightarrow> False) then ''error''
      else ''valid'')"

text \<open>
  \<open>GoodForm.Helpers.findOrCreateValidationSpan\<close>: the element whose id is the
  underscored name plus \<open>_validation\<close>; when there is none, a new span with that id
  placed right after the last element of that name, and nothing when no element has that
  name. The result is the id of the span and the document.
\<close>

fun insert_after_last :: "string \<Rightarrow> node \<Rightarrow> node list \<Rightarrow> node list" where
  "insert_after_last name span [] = []"
| "insert_after_last name span (n # ns) =
     (if node_name n = Some name \<and> getElementsByName name ns = [] then n # span # ns
      else n # insert_after_last name span ns)"

definition new_span :: "string \<Rightarrow> node" where
  "new_span i = \<lparr> node_id = i, node_name = None, node_value = [], node_checked = False,
                  node_type = [], node_form = [], className = [], innerHTML = [] \<rparr>"

definition findOrCreateValidationSpan :: "string \<Rightarrow> node list \<Rightarrow> string option \<times> node list" where
  "findOrCreateValidationSpan name doc =
     (let i = underscore name @ ''_validation'' in
      case getElementById i doc of
        Some vEl \<Rightarrow> (Some i, doc)
      | None \<Rightarrow>
          if getElementsByName name doc = [] then (None, doc)
          else (Some i, insert_after_last name (new_span i) doc))"

text \<open>Writing \<open>className\<close> and \<open>innerHTML\<close> of the element with a given id.\<close>

fun paint :: "string \<Rightarrow> string \<Rightarrow> string \<Rightarrow> node list \<Rightarrow> node list" where
  "paint i cls html [] = []"
| "paint i cls html (n # ns) =
     (if node_id n = i then n\<lparr>className := cls, innerHTML := html\<rparr> # ns
      else n # paint i cls html ns)"

section \<open>Rules\<close>

text \<open>
  A guard (\<open>"if"\<close>, \<open>unless\<close>) is a function of the field name. It is either a callback
  of the page, or \<open>Validate.Local\<close> itself, as in
  \<open>Validates.Ajax("email", { "if": Validate.Local })\<close>.
\<close>

datatype guard = Callback "string \<Rightarrow> error + jsval" | ValidateLocal

text \<open>
  The configuration object of a rule. \<open>GoodForm.Validation\<close> copies every option onto
  the rule, so a rule is its options plus the \<open>validate\<close> function that the
  \<open>Validates\<close> function assigns. A missing option is \<open>None\<close> (\<open>undefined\<close>);
  \<open>allowBlank\<close> and \<open>allowNull\<close> are the truth values of the options. The options
  \<open>"with"\<close>, \<open>"in"\<close>, \<open>"if"\<close> and \<open>is\<close> are \<open>opt_with\<close> (the \<open>test\<close>
  method of the regular expression), \<open>opt_in\<close>, \<open>opt_if\<close> and \<open>opt_is\<close>, and
  \<open>include\<close> is \<open>opt_include\<close>.
\<close>

record options =
  message :: "string option"
  allowBlank :: bool
  allowNull :: bool
  opt_if :: "guard option"
  unless :: "guard option"
  opt_with :: "(string \<Rightarrow> bool) option"
  minimum :: "nat option"
  maximum :: "nat option"
  opt_is :: "nat option"
  within :: "nat list option"
  opt_in :: "nat list option"
  inOption :: "nat list option"
  tooLong :: "string option"
  tooShort :: "string option"
  wrongLength :: "string option"
  opt_include :: "string list"

record rule = options +
  validate :: "jsval \<Rightarrow> error + jsval"

definition no_options :: options where
  "no_options = \<lparr> message = None, allowBlank = False, allowNull = False, opt_if = None,
     unless = None, opt_with = None, minimum = None, maximum = None, opt_is = None,
     within = None, opt_in = None, inOption = None, tooLong = None, tooShort = None,
     wrongLength = None, opt_include = [] \<rparr>"

text \<open>
  \<open>GoodForm.defaultErrorMessages\<close>, as the library sets it (a page may change it; the
  table is taken as it stands).
\<close>

definition defaultErrorMessages :: "string obj" where
  "defaultErrorMessages =
     [(''inclusion'', ''is not included in the list''),
      (''exclusion'', ''is reserved''),
      (''invalid'', ''is invalid''),
      (''confirmation'', ''doesn't match''),
      (''accepted'', ''must be accepted''),
      (''empty'', ''can't be empty''),
      (''blank'', ''can't be blank''),
      (''tooLong'', ''is too long (maximum is %d characters)''),
      (''tooShort'', ''is too short (minimum is %d characters)''),
      (''wrongLength'', ''is the wrong length (should be %d characters)''),
      (''taken'', ''has already been taken''),
      (''notANumber'', ''is not a number''),
      (''greaterThan'', ''must be greater than %d''),
      (''greaterThanOrEqualTo'', ''must be greater than or equal to %d''),
      (''equalTo'', ''must be equal to %d''),
      (''lessThan'', ''must be less than %d''),
      (''lessThanOrEqualTo'', ''must be less than or equal to %d''),
      (''odd'', ''must be odd''),
      (''even'', ''must be even'')]"

section \<open>The GoodForm object\<close>

text \<open>
  A \<open>readystatechange\<close> event as the handler of \<open>Validate.Remote\<close> sees it: the ready
  state and status of the request and, for a completed request, the object that
  \<open>eval\<close> makes of the response text.
\<close>

record xhr_event =
  readyState :: nat
  status :: nat
  json :: "jsval obj"

text \<open>The events of a request: opened, and completed with a status and a payload.\<close>

definition opened :: xhr_event where
  "opened = \<lparr>readyState = 1, status = 0, json = []\<rparr>"

definition completed :: "nat \<Rightarrow> jsval obj \<Rightarrow> xhr_event" where
  "completed code payload = \<lparr>readyState = 4, status = code, json = payload\<rparr>"

text \<open>
  What the program does to its surroundings: a call of the presenter
  \<open>GoodForm.Validate.Effect(name, response)\<close>, and a request opened for a URL.
\<close>

datatype effect = Report string jsval | Request string

text \<open>
  The state: the registries \<open>GoodForm.local\<close> and \<open>GoodForm.remote\<close>, the settings,
  \<open>GoodForm.Validate.queue\<close> and \<open>GoodForm.Validate.response\<close>, and the surroundings:
  the document, \<open>location.protocol + "//" + location.host\<close>, the
  \<open>readystatechange\<close> events that the host's \<open>XMLHttpRequest\<close> dispatches inside
  \<open>open\<close> and \<open>send\<close> before they return, and the trace of effects so far.
  \<open>GoodForm\<close> is the object as the library defines it, on an empty page and a host
  that dispatches one event, in \<open>open\<close>.
\<close>

record good_form =
  local :: "rule list obj"
  remote :: "rule list obj"
  validMessage :: string
  validMessages :: "string obj"
  remotePath :: string
  loadingMessage :: string
  queue :: "jsval obj"
  response :: "jsval obj"
  document :: "node list"
  location :: string
  dispatched :: "xhr_event list"
  trace :: "effect list"

definition GoodForm :: good_form where
  "GoodForm = \<lparr> local = [], remote = [], validMessage = [], validMessages = [],
     remotePath = ''/validate'', loadingMessage = [], queue = [], response = [],
     document = [], location = ''http://localhost'', dispatched = [opened], trace = [] \<rparr>"

section \<open>Registration\<close>

text \<open>
  \<open>GoodForm.Helpers.extractOptions\<close> on the arguments of a \<open>Validates\<close> function: the
  field names, and the configuration object when one is passed last. The last argument
  is popped when it is an object; with no argument at all, reading \<open>constructor\<close> of
  \<open>undefined\<close> raises.
\<close>

definition extractOptions :: "string list \<Rightarrow> options option \<Rightarrow> error + options" where
  "extractOptions names config =
     (case config of
        Some opts \<Rightarrow> Inr opts
      | None \<Rightarrow> if names = [] then Inl TypeError else Inr no_options)"

text \<open>
  Reading a registry, \<open>GoodForm[type][name]\<close>: the rules registered for the name, a
  function inherited from \<open>Object.prototype\<close> (with its \<open>length\<close>), or
  \<open>undefined\<close>.
\<close>

datatype entry = Registered "rule list" | Inherited nat | Missing

definition entry_of :: "rule list obj \<Rightarrow> string \<Rightarrow> entry" where
  "entry_of table name =
     (case map_of table name of
        Some vs \<Rightarrow> Registered vs
      | None \<Rightarrow> (case map_of Object_prototype name of
                   Some n \<Rightarrow> Inherited n
                 | None \<Rightarrow> Missing))"

text \<open>
  The registration loop of \<open>GoodForm.Validation\<close>: it stops at the first empty name,
  and appends the rule to the list of each name, which it creates when the registry
  gives nothing for the name. When the registry gives an inherited function, no list is
  created and \<open>push\<close> of the function is called, which raises: the loop ends there,
  with the names before it registered.
\<close>

definition push_rule :: "string \<Rightarrow> rule \<Rightarrow> rule list obj \<Rightarrow> rule list obj" where
  "push_rule name v table =
     put name (case map_of table name of None \<Rightarrow> [v] | Some vs \<Rightarrow> vs @ [v]) table"

fun register :: "bool \<Rightarrow> string list \<Rightarrow> rule \<Rightarrow> good_form \<Rightarrow> error option \<times> good_form" where
  "register is_remote [] v st = (None, st)"
| "register is_remote (arg # args) v st =
     (if arg = [] then (None, st)
      else let name = to_string (extractName arg (document st)) in
        case entry_of (if is_remote then remote st else local st) name of
          Inherited n \<Rightarrow> (Some TypeError, st)
        | _ \<Rightarrow>
            register is_remote args v
              (if is_remote then st\<lparr>remote := push_rule name v (remote st)\<rparr>
               else st\<lparr>local := push_rule name v (local st)\<rparr>))"

text \<open>
  \<open>GoodForm.Validation(args, defaultMessage, remote)\<close>, where \<open>defaultMessage\<close> is
  a key of \<open>defaultErrorMessages\<close> or nothing. The object it registers is the one its
  caller goes on to complete (\<open>v.validate = ...\<close>), so the rule that the registry
  holds is the completed one: \<open>complete\<close> is what the caller does to the object. When
  the registration raises, the caller never gets to complete the object: the names
  registered by then hold it as the constructor left it, \<open>bare\<close>, with no
  \<open>validate\<close>. No option is checked here: none is required.
\<close>

definition bare :: "options \<Rightarrow> rule" where
  "bare this = options.extend this (rule.fields (\<lambda>value. Inl TypeError))"

definition Validation ::
  "string list \<Rightarrow> options option \<Rightarrow> string \<Rightarrow> bool \<Rightarrow> (options \<Rightarrow> rule) \<Rightarrow> good_form
   \<Rightarrow> error option \<times> good_form" where
  "Validation names config defaultMessage is_remote complete st =
     (case extractOptions names config of
        Inl e \<Rightarrow> (Some e, st)
      | Inr opts \<Rightarrow>
          let this = (if defaultMessage \<noteq> [] \<and> message opts = None
                      then opts\<lparr>message := map_of defaultErrorMessages defaultMessage\<rparr>
                      else opts)
          in case register is_remote names (complete this) st of
               (None, st') \<Rightarrow> (None, st')
             | (Some e, st') \<Rightarrow> (Some e, snd (register is_remote names (bare this) st)))"

definition message_of :: "options \<Rightarrow> jsval" where
  "message_of v = (case message v of None \<Rightarrow> Undefined | Some m \<Rightarrow> Str m)"

text \<open>
  \<open>Validates.Format\<close>: the predicate calls \<open>v["with"].test(value)\<close>, which raises
  when no \<open>"with"\<close> was given.
\<close>

definition Format_validate :: "options \<Rightarrow> jsval \<Rightarrow> error + jsval" where
  "Format_validate v value =
     (case opt_with v of
        None \<Rightarrow> Inl TypeError
      | Some test \<Rightarrow> if \<not> test (to_string value) then Inr (message_of v) else Inr Undefined)"

definition Validates_Format :: "string list \<Rightarrow> options option \<Rightarrow> good_form \<Rightarrow> error option \<times> good_form" where
  "Validates_Format names config st =
     Validation names config ''invalid'' False
       (\<lambda>v. options.extend v (rule.fields (Format_validate v))) st"

text \<open>\<open>Validates.Presence\<close>: \<open>/^\s*$/.test(value || "")\<close>.\<close>

definition Presence_validate :: "options \<Rightarrow> jsval \<Rightarrow> error + jsval" where
  "Presence_validate v value =
     (if blank (to_string (if truthy value then value else Str []))
      then Inr (message_of v) else Inr Undefined)"

definition Validates_Presence :: "string list \<Rightarrow> options option \<Rightarrow> good_form \<Rightarrow> error option \<times> good_form" where
  "Validates_Presence names config st =
     Validation names config ''blank'' False
       (\<lambda>v. options.extend v (rule.fields (Presence_validate v))) st"

text \<open>
  \<open>Validates.Length\<close>. \<open>value.length\<close> is a number for a string, for an array and
  for a function, and \<open>undefined\<close> otherwise; a comparison with \<open>undefined\<close> is false, and
  \<open>undefined == undefined\<close> is true.
\<close>

fun first_truthy :: "string option \<Rightarrow> string option \<Rightarrow> string \<Rightarrow> error + string" where
  "first_truthy (Some (c # cs)) b key = Inr (c # cs)"
| "first_truthy a (Some (c # cs)) key = Inr (c # cs)"
| "first_truthy a b key =
     (case map_of defaultErrorMessages key of None \<Rightarrow> Inl TypeError | Some m \<Rightarrow> Inr m)"

definition number_string :: "nat option \<Rightarrow> string" where
  "number_string n = (case n of None \<Rightarrow> ''undefined'' | Some k \<Rightarrow> decimal k)"

definition Length_bounds :: "options \<Rightarrow> options" where
  "Length_bounds v0 =
     (let v1 = (if inOption v0 \<noteq> None then v0\<lparr>opt_in := inOption v0\<rparr> else v0);
          range = (if within v1 \<noteq> None then within v1 else opt_in v1)
      in case range of
           Some r \<Rightarrow> v1\<lparr>minimum := (if r = [] then None else Some (hd r)),
                       maximum := (if r = [] then None else Some (last r))\<rparr>
         | None \<Rightarrow>
             (case opt_is v1 of
                Some n \<Rightarrow> if n \<noteq> 0 then v1\<lparr>minimum := Some n, maximum := Some n\<rparr> else v1
              | None \<Rightarrow> v1))"

definition Length_validate :: "options \<Rightarrow> jsval \<Rightarrow> error + jsval" where
  "Length_validate v value =
     (let len = (if truthy value
                 then (case value of Str s \<Rightarrow> Some (length s) | Arr xs \<Rightarrow> Some (length xs)
                       | Fun n \<Rightarrow> Some n | _ \<Rightarrow> None)
                 else Some 0)
      in if minimum v = maximum v \<and> len \<noteq> minimum v
         then map_sum id (\<lambda>m. Str (replace_percent_d m (number_string (minimum v))))
                (first_truthy (wrongLength v) (message v) ''wrongLength'')
         else if (case (len, minimum v) of (Some l, Some m) \<Rightarrow> l < m | _ \<Rightarrow> False)
         then map_sum id (\<lambda>m. Str (replace_percent_d m (number_string (minimum v))))
                (first_truthy (tooShort v) (message v) ''tooShort'')
         else if (case (len, maximum v) of (Some l, Some m) \<Rightarrow> m \<noteq> 0 \<and> l > m | _ \<Rightarrow> False)
         then map_sum id (\<lambda>m. Str (replace_percent_d m (number_string (maximum v))))
                (first_truthy (tooLong v) (message v) ''tooLong'')
         else Inr Undefined)"

definition Validates_Length :: "string list \<Rightarrow> options option \<Rightarrow> good_form \<Rightarrow> error option \<times> good_form" where
  "Validates_Length names config st =
     Validation names config [] False
       (\<lambda>v. let v' = Length_bounds v in options.extend v' (rule.fields (Length_validate v'))) st"

text \<open>
  \<open>Validates.Ajax\<close> registers a remote rule. It has no \<open>validate\<close>; its
  \<open>pushParameters\<close> is \<open>pushParameters\<close> below.
\<close>

definition Validates_Ajax :: "string list \<Rightarrow> options option \<Rightarrow> good_form \<Rightarrow> error option \<times> good_form" where
  "Validates_Ajax names config st =
     Validation names config [] True
       (\<lambda>v. options.extend v (rule.fields (\<lambda>value. Inl TypeError))) st"

section \<open>The dispatcher\<close>

text \<open>
  \<open>GoodForm.Validate.Local\<close>: it reads \<open>GoodForm.local[name][i]\<close> with no check that
  \<open>GoodForm.local[name]\<close> is there, and returns false at the first rule whose predicate
  returns something true. An inherited function has no element \<open>0\<close>: the loop ends
  at once and the result is true.
\<close>

fun Local_loop :: "rule list \<Rightarrow> jsval \<Rightarrow> error + bool" where
  "Local_loop [] value = Inr True"
| "Local_loop (v # vs) value =
     (case validate v value of
        Inl e \<Rightarrow> Inl e
      | Inr r \<Rightarrow> if truthy r then Inr False else Local_loop vs value)"

definition Validate_Local :: "string \<Rightarrow> good_form \<Rightarrow> error + bool" where
  "Validate_Local name st =
     (case entry_of (local st) name of
        Missing \<Rightarrow> Inl TypeError
      | Inherited n \<Rightarrow> Inr True
      | Registered vs \<Rightarrow> Local_loop vs (getValuesByName name [] (document st)))"

definition call_guard :: "guard \<Rightarrow> string \<Rightarrow> good_form \<Rightarrow> error + jsval" where
  "call_guard g name st =
     (case g of
        Callback f \<Rightarrow> f name
      | ValidateLocal \<Rightarrow> map_sum id Bool (Validate_Local name st))"

text \<open>
  The \<open>switch (true)\<close> of \<open>Validate.Queue\<close>: the case expressions are evaluated in
  order, and the first that is \<open>true\<close> skips the rule. The result is whether the rule is
  skipped.
\<close>

definition skipped :: "rule \<Rightarrow> string \<Rightarrow> jsval \<Rightarrow> good_form \<Rightarrow> error + bool" where
  "skipped v name value st =
     (if allowBlank v \<and> blank (to_string value) then Inr True
      else if allowNull v \<and> eq_empty_string value then Inr True
      else case (case opt_if v of
                   None \<Rightarrow> Inr False
                 | Some g \<Rightarrow> map_sum id (\<lambda>r. \<not> truthy r) (call_guard g name st)) of
             Inl e \<Rightarrow> Inl e
           | Inr True \<Rightarrow> Inr True
           | Inr False \<Rightarrow>
               (case unless v of
                  None \<Rightarrow> Inr False
                | Some g \<Rightarrow> map_sum id (\<lambda>r. r = Bool True) (call_guard g name st)))"

text \<open>\<open>s.split("=")\<close>, and the \<open>pushParameters\<close> that \<open>Validates.Ajax\<close> gives a rule.\<close>

fun split_eq :: "string \<Rightarrow> string list" where
  "split_eq [] = [[]]"
| "split_eq (c # cs) =
     (if c = CHR ''='' then [] # split_eq cs
      else (case split_eq cs of [] \<Rightarrow> [[c]] | f # fs \<Rightarrow> (c # f) # fs))"

fun push_loop :: "string list \<Rightarrow> good_form \<Rightarrow> good_form" where
  "push_loop [] st = st"
| "push_loop (incl # rest) st =
     (if incl = [] then st
      else let value = getValuesByName incl [] (document st) in
        push_loop rest
          (if truthy value then st\<lparr>queue := put incl value (queue st)\<rparr>
           else (case split_eq incl of
                   [] \<Rightarrow> st
                 | [k] \<Rightarrow> st\<lparr>queue := put k Undefined (queue st)\<rparr>
                 | k # x # _ \<Rightarrow> st\<lparr>queue := put k (Str x) (queue st)\<rparr>)))"

definition pushParameters :: "rule \<Rightarrow> good_form \<Rightarrow> good_form" where
  "pushParameters v st = push_loop (opt_include v) st"

text \<open>
  \<open>errors.concat(error)\<close>: \<open>Array.prototype.concat\<close> appends the elements of an array
  and any other value as one element; on a string it is \<open>String.prototype.concat\<close>;
  other values have no such method.
\<close>

fun concat_js :: "jsval \<Rightarrow> jsval \<Rightarrow> error + jsval" where
  "concat_js (Arr xs) (Arr ys) = Inr (Arr (xs @ ys))"
| "concat_js (Arr xs) e = Inr (Arr (xs @ [e]))"
| "concat_js (Str s) e = Inr (Str (s @ to_string e))"
| "concat_js errors e = Inl TypeError"

datatype vtype = Remote | Local

text \<open>
  The loop of \<open>Validate.Queue\<close> over the rules of a name. An exception ends it, with
  the state as it is by then.
\<close>

fun Queue_loop :: "vtype \<Rightarrow> string \<Rightarrow> jsval \<Rightarrow> rule list \<Rightarrow> good_form \<Rightarrow> error option \<times> good_form" where
  "Queue_loop type name value [] st = (None, st)"
| "Queue_loop type name value (v # vs) st =
     (case skipped v name value st of
        Inl e \<Rightarrow> (Some e, st)
      | Inr True \<Rightarrow> Queue_loop type name value vs st
      | Inr False \<Rightarrow>
          if type = Remote
          then Queue_loop type name value vs
                 (pushParameters v (st\<lparr>queue := put name value (queue st)\<rparr>))
          else (case validate v value of
                  Inl e \<Rightarrow> (Some e, st)
                | Inr err \<Rightarrow>
                    if truthy err
                    then (let errors = (if truthy (get (response st) name)
                                        then get (response st) name else Arr [])
                          in case concat_js errors err of
                               Inl e \<Rightarrow> (Some e, st)
                             | Inr errors' \<Rightarrow>
                                 Queue_loop type name value vs
                                   (st\<lparr>response := put name errors' (response st)\<rparr>))
                    else Queue_loop type name value vs st))"

text \<open>\<open>GoodForm.validMessages[name] || GoodForm.validMessage\<close>.\<close>

definition valid_message :: "string \<Rightarrow> good_form \<Rightarrow> jsval" where
  "valid_message name st =
     (case map_of (validMessages st) name of
        Some m \<Rightarrow> if m \<noteq> [] then Str m else Str (validMessage st)
      | None \<Rightarrow> if truthy (inherited name) then inherited name else Str (validMessage st))"

text \<open>What \<open>Validate.Queue\<close> does after its loop.\<close>

definition Queue_return :: "vtype \<Rightarrow> string \<Rightarrow> good_form \<Rightarrow> (error + jsval) \<times> good_form" where
  "Queue_return type name st' =
     (if type = Remote then (Inr (get (queue st') name), st')
      else let st'' = (if \<not> truthy (get (response st') name)
                       then st'\<lparr>response := put name (valid_message name st') (response st')\<rparr>
                       else st')
           in (Inr (get (response st'') name), st''))"

text \<open>
  \<open>GoodForm.Validate.Queue(type, name, value)\<close>. With nothing in the registry for the
  name it returns \<open>null\<close>. With an inherited function in its place, the loop runs up
  to the \<open>length\<close> of the function and its first round reads \<open>v.allowBlank\<close> of
  \<open>undefined\<close>, which raises.
\<close>

definition Validate_Queue :: "vtype \<Rightarrow> string \<Rightarrow> jsval \<Rightarrow> good_form \<Rightarrow> (error + jsval) \<times> good_form" where
  "Validate_Queue type name value st =
     (case entry_of (if type = Remote then remote st else local st) name of
        Missing \<Rightarrow> (Inr Null, st)
      | Inherited n \<Rightarrow> if 0 < n then (Inl TypeError, st) else Queue_return type name st
      | Registered vs \<Rightarrow>
          (case Queue_loop type name value vs st of
             (Some e, st') \<Rightarrow> (Inl e, st')
           | (None, st') \<Rightarrow> Queue_return type name st'))"

section \<open>The presenter\<close>

text \<open>
  \<open>GoodForm.Validate.Effect(name, response)\<close>: the call is recorded in the trace; the
  span of the field, when there is one, gets its class from \<open>parseResponse\<close> and its
  text from the response. \<open>response.join(", ")\<close> writes \<open>undefined\<close> and \<open>null\<close>
  elements as empty strings.
\<close>

definition array_join :: "string \<Rightarrow> jsval list \<Rightarrow> string" where
  "array_join sep xs =
     join sep (map (\<lambda>x. if x = Undefined \<or> x = Null then [] else to_string x) xs)"

definition Validate_Effect :: "string \<Rightarrow> jsval \<Rightarrow> good_form \<Rightarrow> good_form" where
  "Validate_Effect name resp st =
     (let st1 = st\<lparr>trace := trace st @ [Report name resp]\<rparr> in
      case findOrCreateValidationSpan name (document st1) of
        (None, doc) \<Rightarrow> st1
      | (Some el, doc) \<Rightarrow>
          let status = parseResponse resp;
              html = (if status = ''loading'' then loadingMessage st1
                      else if status = ''valid''
                      then (if truthy resp then to_string resp
                            else to_string (valid_message name st1))
                      else (case resp of Arr xs \<Rightarrow> array_join '', '' xs | _ \<Rightarrow> []))
          in st1\<lparr>document := paint el (''good_form '' @ status) html doc\<rparr>)"

section \<open>The batch\<close>

text \<open>\<open>encodeURIComponent\<close> on an ASCII string.\<close>

definition hex_digit :: "nat \<Rightarrow> char" where
  "hex_digit n = (if n < 10 then char_of (48 + n) else char_of (55 + n))"

definition unreserved :: "char \<Rightarrow> bool" where
  "unreserved c = (is_word c \<or> c \<in> set ''-.!~*'()'')"

definition encodeURIComponent :: "string \<Rightarrow> string" where
  "encodeURIComponent s =
     concat (map (\<lambda>c. if unreserved c then [c]
                       else [CHR ''%'', hex_digit (of_char c div 16), hex_digit (of_char c mod 16)]) s)"

text \<open>
  The parameters of \<open>Validate.Remote\<close>: for each queued name, one \<open>name=value\<close> for
  each of its values, up to the first value that is not true (an empty string, or
  \<open>undefined\<close>).
\<close>

definition params_of :: "jsval obj \<Rightarrow> string list" where
  "params_of q =
     concat (map (\<lambda>(name, queued).
       map (\<lambda>value. name @ ''='' @ encodeURIComponent (to_string value))
         (takeWhile truthy (case queued of Arr xs \<Rightarrow> xs | _ \<Rightarrow> [queued]))) q)"

text \<open>
  The handler \<open>t.onreadystatechange\<close>. On a completed request with a 2xx status it
  calls the presenter on every entry of the payload; otherwise, unless \<open>loadingState\<close>,
  it calls the presenter with no response on every name of \<open>GoodForm.Validate.queue\<close> as
  it is then. \<open>loadingState\<close> is declared by \<open>Validate.Remote\<close> and never assigned, so
  it is \<open>undefined\<close> at every event.
\<close>

definition onreadystatechange :: "xhr_event \<Rightarrow> good_form \<Rightarrow> good_form" where
  "onreadystatechange t st =
     (let loadingState = Undefined in
      if readyState t = 4 \<and> status t \<ge> 200 \<and> status t < 300
      then fold (\<lambda>(name, result). Validate_Effect name result) (json t) st
      else if \<not> truthy loadingState
      then fold (\<lambda>(name, queued). Validate_Effect name Undefined) (queue st) st
      else st)"

text \<open>
  \<open>GoodForm.Validate.Remote\<close>: with no parameter nothing is sent and the result is
  false; otherwise the request is opened and sent, the handler runs on the events that
  the host dispatches meanwhile, and the result is true. The events that come later are
  further calls of \<open>onreadystatechange\<close> on the state of their time.
\<close>

definition Validate_Remote :: "good_form \<Rightarrow> bool \<times> good_form" where
  "Validate_Remote st =
     (let params = params_of (queue st) in
      if length params < 1 then (False, st)
      else let baseUri = location st @ remotePath st;
               st1 = st\<lparr>trace := trace st @ [Request (baseUri @ ''?'' @ join ''&'' params)]\<rparr>
           in (True, fold onreadystatechange (dispatched st1) st1))"

text \<open>
  \<open>GoodForm.Validate.Run\<close>: when nothing was sent, the loop over
  \<open>GoodForm.Validate.response\<close> assigns each entry to the variable \<open>response\<close> and
  presents it (unless silent); the result is \<open>parseResponse\<close> of that variable after the
  loop.
\<close>

definition Validate_Run :: "bool \<Rightarrow> good_form \<Rightarrow> bool \<times> good_form" where
  "Validate_Run silent st =
     (let (sent, st1) = Validate_Remote st;
          (resp, st2) =
            (if \<not> sent
             then fold (\<lambda>(name, r) (resp, s). (r, if silent then s else Validate_Effect name r s))
                    (response st1) (Undefined, st1)
             else (Undefined, st1))
      in (parseResponse resp = ''valid'', st2\<lparr>queue := []\<rparr>))"

section \<open>The entry points\<close>

record name_options =
  opt_defer :: bool
  opt_local :: bool
  opt_scope :: string
  opt_silent :: bool

text \<open>\<open>GoodForm.Validate.Name(name, options)\<close>, also known as \<open>Validate\<close>.\<close>

definition Validate_Name :: "string \<Rightarrow> name_options \<Rightarrow> good_form \<Rightarrow> (error + jsval) \<times> good_form" where
  "Validate_Name input options st0 =
     (let name_v = extractName input (document st0);
          name = to_string name_v;
          st1 = (if \<not> opt_defer options then st0\<lparr>response := []\<rparr> else st0);
          value = getValuesByName name (opt_scope options) (document st1)
      in if eq_undefined value then (Inr Undefined, st1)
         else
           case (if \<not> opt_local options then Validate_Queue Remote name value st1
                 else (Inr Undefined, st1)) of
             (Inl e, st2) \<Rightarrow> (Inl e, st2)
           | (Inr remote_result, st2) \<Rightarrow>
               (case (if \<not> truthy remote_result then Validate_Queue Local name value st2
                      else (Inr Undefined, st2)) of
                  (Inl e, st3) \<Rightarrow> (Inl e, st3)
                | (Inr local_result, st3) \<Rightarrow>
                    if \<not> opt_defer options
                    then (let (valid, st4) = Validate_Run (opt_silent options) st3
                          in (Inr (Bool valid), st4))
                    else if truthy name_v then (Inr (get (response st3) name), st3)
                    else (Inr Undefined, st3)))"

text \<open>\<open>GoodForm.Validate.All(form)\<close>.\<close>

fun All_remote :: "string list \<Rightarrow> string \<Rightarrow> good_form \<Rightarrow> error option \<times> good_form" where
  "All_remote [] form st = (None, st)"
| "All_remote (name # names) form st =
     (case Validate_Name name
             \<lparr>opt_defer = True, opt_local = False, opt_scope = form, opt_silent = False\<rparr> st of
        (Inl e, st') \<Rightarrow> (Some e, st')
      | (Inr r, st') \<Rightarrow> All_remote names form st')"

fun All_local :: "string list \<Rightarrow> string \<Rightarrow> good_form \<Rightarrow> error option \<times> good_form" where
  "All_local [] form st = (None, st)"
| "All_local (name # names) form st =
     (if \<not> truthy (get (response st) name)
      then (case Validate_Name name
                   \<lparr>opt_defer = True, opt_local = False, opt_scope = form, opt_silent = False\<rparr> st of
              (Inl e, st') \<Rightarrow> (Some e, st')
            | (Inr r, st') \<Rightarrow> All_local names form st')
      else All_local names form st)"

definition Validate_All :: "string \<Rightarrow> good_form \<Rightarrow> (error + bool) \<times> good_form" where
  "Validate_All form st =
     (case All_remote (map fst (remote st)) form (st\<lparr>response := []\<rparr>) of
        (Some e, st1) \<Rightarrow> (Inl e, st1)
      | (None, st1) \<Rightarrow>
          (case All_local (map fst (local st1)) form st1 of
             (Some e, st2) \<Rightarrow> (Inl e, st2)
           | (None, st2) \<Rightarrow> (let (valid, st3) = Validate_Run False st2 in (Inr valid, st3))))"

section \<open>What the specification says, in its own words\<close>

text \<open>The rules registered for a name, none when the name has no entry.\<close>

definition rules_of :: "rule list obj \<Rightarrow> string \<Rightarrow> rule list" where
  "rules_of table name = (case map_of table name of None \<Rightarrow> [] | Some vs \<Rightarrow> vs)"



text \<open>
  The messages of the rules that fail on a value, in registration order: a rule fails
  when it is not skipped and its predicate returns something true, a message or an array
  of messages.
\<close>

definition flat :: "jsval \<Rightarrow> jsval list" where
  "flat e = (case e of Arr ys \<Rightarrow> ys | _ \<Rightarrow> [e])"

fun failed_messages :: "string \<Rightarrow> jsval \<Rightarrow> rule list \<Rightarrow> good_form \<Rightarrow> jsval list" where
  "failed_messages name value [] st = []"
| "failed_messages name value (v # vs) st =
     (case skipped v name value st of
        Inr False \<Rightarrow>
          (case validate v value of
             Inr e \<Rightarrow> if truthy e then flat e else []
           | Inl x \<Rightarrow> [])
      | _ \<Rightarrow> [])
     @ failed_messages name value vs st"

section \<open>Example pages\<close>

text \<open>
  A text field whose id is its name; the script of a page, a sequence of registrations
  that an exception ends; a sign-up page with an empty login and an e-mail address.
\<close>

definition text_input :: "string \<Rightarrow> string \<Rightarrow> node" where
  "text_input name v =
     \<lparr> node_id = name, node_name = Some name, node_value = v, node_checked = False,
       node_type = ''text'', node_form = [], className = [], innerHTML = [] \<rparr>"

fun script :: "(good_form \<Rightarrow> error option \<times> good_form) list \<Rightarrow> good_form \<Rightarrow> good_form" where
  "script [] st = st"
| "script (f # fs) st = (case f st of (Some e, st') \<Rightarrow> st' | (None, st') \<Rightarrow> script fs st')"

definition signup_page :: good_form where
  "signup_page =
     GoodForm\<lparr>document := [text_input ''login'' [], text_input ''email'' ''a@b.com'']\<rparr>"

definition no_call_options :: name_options where
  "no_call_options = \<lparr>opt_defer = False, opt_local = False, opt_scope = [], opt_silent = False\<rparr>"

text \<open>
  The sign-up page with a length rule on the login that allows a blank value; with a
  presence rule with \<open>allowNull\<close>; with a presence rule and a format rule (the pattern
  \<open>/@/\<close>) on the login; and with a remote rule and a presence rule on both fields.
\<close>

definition length_page :: good_form where
  "length_page =
     script [Validates_Length [''login'']
               (Some (no_options\<lparr>minimum := Some 6, allowBlank := True\<rparr>))] signup_page"


definition checked_page :: good_form where
  "checked_page =
     script [Validates_Presence [''login''] None,
             Validates_Format [''login'']
               (Some (no_options\<lparr>opt_with := Some (\<lambda>s. contains s ''@'')\<rparr>))] signup_page"

definition remote_page :: good_form where
  "remote_page =
     script [Validates_Ajax [''login'', ''email''] None,
             Validates_Presence [''login'', ''email''] None] signup_page"

section \<open>Properties\<close>

subsection \<open>What the presenter and the batch leave alone\<close>

lemma Validate_Effect_response [simp]: "response (Validate_Effect name r st) = response st"
  by (simp add: Validate_Effect_def Let_def split: prod.splits option.splits)

lemma fold_response:
  assumes "\<And>x s. response (f x s) = response s"
  shows "response (fold f xs st) = response st"
  by (induction xs arbitrary: st) (simp_all add: assms)

lemma onreadystatechange_response: "response (onreadystatechange t st) = response st"
  by (simp add: onreadystatechange_def fold_response split: prod.splits)

lemma Validate_Remote_response: "response (snd (Validate_Remote st)) = response st"
  by (simp add: Validate_Remote_def Let_def fold_response onreadystatechange_response)

lemma fold_Run_response:
  "response (snd (fold (\<lambda>(name, r) (resp, s). (r, if silent then s else Validate_Effect name r s)) xs acc)) = response (snd acc)"
  by (induction xs arbitrary: acc) (auto split: prod.splits)

lemma Validate_Run_response: "response (snd (Validate_Run silent st)) = response st"
proof (cases "Validate_Remote st")
  case (Pair sent st1)
  then have eq: "response st1 = response st"
    using Validate_Remote_response [of st] by simp
  obtain resp st2 where f: "fold (\<lambda>(name, r) (resp, s). (r, if silent then s else Validate_Effect name r s))
      (response st1) (Undefined, st1) = (resp, st2)"
    by (cases "fold (\<lambda>(name, r) (resp, s). (r, if silent then s else Validate_Effect name r s))
      (response st1) (Undefined, st1)")
  have "response st2 = response st1"
    using fold_Run_response [of silent "response st1" "(Undefined, st1)"] f by simp
  then show ?thesis
    using Pair f eq by (simp add: Validate_Run_def)
qed

lemma push_loop_response: "response (push_loop incls st) = response st"
  by (induction incls arbitrary: st) (auto simp: Let_def split: list.splits)

lemma Queue_loop_Remote_response:
  "response (snd (Queue_loop Remote name value vs st)) = response st"
  by (induction vs arbitrary: st) (auto simp: pushParameters_def push_loop_response split: sum.splits bool.splits)

lemma entry_of_Registered: "map_of table name = Some vs \<Longrightarrow> entry_of table name = Registered vs"
  by (simp add: entry_of_def)

lemma entry_of_Missing:
  "map_of table name = None \<Longrightarrow> map_of Object_prototype name = None
     \<Longrightarrow> entry_of table name = Missing"
  by (simp add: entry_of_def)

lemma Queue_return_Remote_response: "response (snd (Queue_return Remote name st)) = response st"
  by (simp add: Queue_return_def)

lemma Validate_Queue_Remote_response:
  "response (snd (Validate_Queue Remote name value st)) = response st"
proof (cases "entry_of (remote st) name")
  case Missing
  then show ?thesis by (simp add: Validate_Queue_def)
next
  case (Inherited n)
  then show ?thesis by (simp add: Validate_Queue_def Queue_return_Remote_response)
next
  case (Registered vs)
  obtain e st' where q: "Queue_loop Remote name value vs st = (e, st')"
    by (cases "Queue_loop Remote name value vs st")
  then have "response st' = response st"
    using Queue_loop_Remote_response [of name "value" vs st] by simp
  then show ?thesis
    using Registered q by (cases e) (simp_all add: Validate_Queue_def Queue_return_Remote_response)
qed

subsection \<open>What the presenter is told\<close>

lemma Validate_Effect_trace: "trace (Validate_Effect name r st) = trace st @ [Report name r]"
  by (simp add: Validate_Effect_def Let_def split: prod.splits option.splits)

lemma fold_Effect_trace:
  "trace (fold (\<lambda>(name, x). Validate_Effect name (f x)) xs st)
     = trace st @ map (\<lambda>(name, x). Report name (f x)) xs"
  by (induction xs arbitrary: st) (auto simp: Validate_Effect_trace)

lemma pending_reports:
  assumes "\<not> (readyState t = 4 \<and> status t \<ge> 200 \<and> status t < 300)"
  shows "trace (onreadystatechange t st)
     = trace st @ map (\<lambda>(name, queued). Report name Undefined) (queue st)"
proof -
  have "onreadystatechange t st
      = fold (\<lambda>(name, queued). Validate_Effect name Undefined) (queue st) st"
    using assms by (auto simp: onreadystatechange_def)
  then show ?thesis
    using fold_Effect_trace [of "\<lambda>x. Undefined" "queue st" st] by simp
qed

lemma final_reports:
  assumes "readyState t = 4" and "status t \<ge> 200" and "status t < 300"
  shows "trace (onreadystatechange t st)
     = trace st @ map (\<lambda>(name, result). Report name result) (json t)"
proof -
  have "onreadystatechange t st = fold (\<lambda>(name, result). Validate_Effect name result) (json t) st"
    using assms by (auto simp: onreadystatechange_def)
  then show ?thesis
    using fold_Effect_trace [of "\<lambda>x. x" "json t" st] by simp
qed

lemma parseResponse_classes:
  "parseResponse Undefined = ''loading''"
  "parseResponse Null = ''loading''"
  "parseResponse (Arr (m # ms)) = ''error''"
  "parseResponse (Arr []) = ''valid''"
  "parseResponse (Str s) = ''valid''"
  "parseResponse (Bool b) = ''valid''"
  "parseResponse Obj = ''valid''"
  by (simp_all add: parseResponse_def)

subsection \<open>Guards, registration and accumulation\<close>



lemma map_of_put: "map_of (put k v m) k' = (if k' = k then Some v else map_of m k')"
  by (induction m) auto

lemma rules_of_push_rule:
  "rules_of (push_rule name v table) k
     = (if k = name then rules_of table k @ [v] else rules_of table k)"
  by (simp add: rules_of_def push_rule_def map_of_put split: option.splits)

lemma register_document: "document (snd (register is_remote names v st)) = document st"
  by (induction names arbitrary: st) (auto simp: Let_def split: entry.splits)

text \<open>Whatever the loop does, the rules of a name are those it had, then copies of the rule.\<close>

lemma register_appends:
  "\<exists>m. rules_of (local (snd (register False names v st))) k
         = rules_of (local st) k @ replicate m v"
proof (induction names arbitrary: st)
  case Nil
  show ?case by (rule exI [of _ 0]) simp
next
  case (Cons arg args)
  let ?name = "to_string (extractName arg (document st))"
  let ?st = "st\<lparr>local := push_rule ?name v (local st)\<rparr>"
  show ?case
  proof (cases "arg = [] \<or> (\<exists>n. entry_of (local st) ?name = Inherited n)")
    case True
    then have "snd (register False (arg # args) v st) = st"
      by (auto simp: Let_def)
    then show ?thesis
      using exI [of "\<lambda>m. rules_of (local st) k = rules_of (local st) k @ replicate m v" 0]
      by simp
  next
    case False
    then have step: "register False (arg # args) v st = register False args v ?st"
      by (cases "entry_of (local st) ?name") (simp_all add: Let_def)
    obtain m where m: "rules_of (local (snd (register False args v ?st))) k
        = rules_of (local ?st) k @ replicate m v"
      using Cons.IH [of ?st] by blast
    show ?thesis
    proof (cases "k = ?name")
      case True
      then have "rules_of (local (snd (register False (arg # args) v st))) k
          = rules_of (local st) k @ replicate (Suc m) v"
        using step m by (simp add: rules_of_push_rule replicate_append_same)
      then show ?thesis by blast
    next
      case no: False
      then have "rules_of (local (snd (register False (arg # args) v st))) k
          = rules_of (local st) k @ replicate m v"
        using step m by (simp add: rules_of_push_rule)
      then show ?thesis by blast
    qed
  qed
qed

text \<open>
  When no name is empty and none is read from \<open>Object.prototype\<close>, the loop raises
  nothing, and the rule is the last of the rules of every name.
\<close>

lemma register_registers:
  assumes "\<forall>arg \<in> set names. arg \<noteq> []
             \<and> map_of Object_prototype (to_string (extractName arg (document st))) = None"
  shows "fst (register False names v st) = None
       \<and> (\<forall>arg \<in> set names.
             let k = to_string (extractName arg (document st))
             in rules_of (local (snd (register False names v st))) k \<noteq> []
                \<and> last (rules_of (local (snd (register False names v st))) k) = v)"
  using assms
proof (induction names arbitrary: st)
  case Nil
  then show ?case by simp
next
  case (Cons arg args)
  let ?name = "to_string (extractName arg (document st))"
  let ?st = "st\<lparr>local := push_rule ?name v (local st)\<rparr>"
  have arg: "arg \<noteq> []" and proto: "map_of Object_prototype ?name = None"
    using Cons.prems by simp_all
  have not_inherited: "entry_of (local st) ?name \<noteq> Inherited n" for n
    using proto by (simp add: entry_of_def split: option.splits)
  have step: "register False (arg # args) v st = register False args v ?st"
    using arg not_inherited by (cases "entry_of (local st) ?name") (auto simp: Let_def)
  have "\<forall>a \<in> set args. a \<noteq> []
          \<and> map_of Object_prototype (to_string (extractName a (document ?st))) = None"
    using Cons.prems by simp
  then have ih: "fst (register False args v ?st) = None
       \<and> (\<forall>a \<in> set args.
             let k = to_string (extractName a (document ?st))
             in rules_of (local (snd (register False args v ?st))) k \<noteq> []
                \<and> last (rules_of (local (snd (register False args v ?st))) k) = v)"
    by (rule Cons.IH)
  obtain m where m: "rules_of (local (snd (register False args v ?st))) ?name
      = rules_of (local ?st) ?name @ replicate m v"
    using register_appends [of args v ?st ?name] by blast
  have "rules_of (local ?st) ?name = rules_of (local st) ?name @ [v]"
    by (simp add: rules_of_push_rule)
  then have here: "rules_of (local (snd (register False args v ?st))) ?name
      = rules_of (local st) ?name @ replicate (Suc m) v"
    using m by (simp add: replicate_append_same)
  then have "rules_of (local (snd (register False args v ?st))) ?name \<noteq> []
      \<and> last (rules_of (local (snd (register False args v ?st))) ?name) = v"
    by simp
  then show ?case
    using step ih by (simp add: Let_def)
qed

lemma Validation_returns:
  assumes "extractOptions names config = Inr opts"
    and "this = (if defaultMessage \<noteq> [] \<and> message opts = None
                 then opts\<lparr>message := map_of defaultErrorMessages defaultMessage\<rparr>
                 else opts)"
    and "register is_remote names (complete this) st = (None, st')"
  shows "Validation names config defaultMessage is_remote complete st = (None, st')"
  using assms
  by (cases "defaultMessage \<noteq> [] \<and> message opts = None") (auto simp: Validation_def Let_def)

lemma validate_extend: "validate (options.extend v (rule.fields f)) = f"
  by (simp add: options.defs rule.defs)

lemma call_guard_response: "call_guard g name (st\<lparr>response := r\<rparr>) = call_guard g name st"
  by (cases g) (simp_all add: call_guard_def Validate_Local_def split: entry.splits)

lemma skipped_response: "skipped v name value (st\<lparr>response := r\<rparr>) = skipped v name value st"
  by (simp add: skipped_def call_guard_response
      cong: option.case_cong sum.case_cong bool.case_cong)

lemma failed_messages_response:
  "failed_messages name value vs (st\<lparr>response := r\<rparr>) = failed_messages name value vs st"
  by (induction vs) (simp_all add: skipped_response)

lemma concat_js_Arr: "concat_js (Arr xs) e = Inr (Arr (xs @ flat e))"
  by (cases e) (simp_all add: flat_def)

lemma get_put: "get (put k v m) k = v"
  by (simp add: get_def map_of_put)

lemma Queue_loop_appends:
  assumes "Queue_loop Local name value vs st = (None, st')"
    and "get (response st) name = Arr errs"
  shows "get (response st') name = Arr (errs @ failed_messages name value vs st)"
  using assms
proof (induction vs arbitrary: st errs)
  case Nil
  then show ?case by simp
next
  case (Cons v vs)
  show ?case
  proof (cases "skipped v name value st")
    case (Inl e)
    then show ?thesis using Cons.prems by simp
  next
    case (Inr skip)
    show ?thesis
    proof (cases skip)
      case True
      then show ?thesis using Inr Cons by simp
    next
      case False
      show ?thesis
      proof (cases "validate v value")
        case (Inl e)
        then show ?thesis using Inr False Cons.prems by simp
      next
        case inr: (Inr e)
        show ?thesis
        proof (cases "truthy e")
          case True
          let ?st = "st\<lparr>response := put name (Arr (errs @ flat e)) (response st)\<rparr>"
          have loop: "Queue_loop Local name value vs ?st = (None, st')"
            using Cons.prems Inr False inr True by (simp add: concat_js_Arr)
          have "get (response ?st) name = Arr (errs @ flat e)"
            by (simp add: get_put)
          then have "get (response st') name
              = Arr ((errs @ flat e) @ failed_messages name value vs ?st)"
            using Cons.IH [OF loop] by simp
          then show ?thesis
            using Inr False inr True by (simp add: failed_messages_response)
        next
          case no: False
          then show ?thesis using Inr False inr Cons by simp
        qed
      qed
    qed
  qed
qed

lemma Queue_loop_starts:
  assumes "Queue_loop Local name value vs st = (None, st')"
    and "\<not> truthy (get (response st) name)"
    and "failed_messages name value vs st \<noteq> []"
  shows "get (response st') name = Arr (failed_messages name value vs st)"
  using assms
proof (induction vs arbitrary: st)
  case Nil
  then show ?case by simp
next
  case (Cons v vs)
  show ?case
  proof (cases "skipped v name value st")
    case (Inl e)
    then show ?thesis using Cons.prems by simp
  next
    case (Inr skip)
    show ?thesis
    proof (cases skip)
      case True
      then show ?thesis using Inr Cons by simp
    next
      case False
      show ?thesis
      proof (cases "validate v value")
        case (Inl e)
        then show ?thesis using Inr False Cons.prems by simp
      next
        case inr: (Inr e)
        show ?thesis
        proof (cases "truthy e")
          case True
          let ?st = "st\<lparr>response := put name (Arr (flat e)) (response st)\<rparr>"
          have loop: "Queue_loop Local name value vs ?st = (None, st')"
            using Cons.prems Inr False inr True by (simp add: concat_js_Arr)
          have "get (response ?st) name = Arr (flat e)"
            by (simp add: get_put)
          then have "get (response st') name = Arr (flat e @ failed_messages name value vs ?st)"
            using Queue_loop_appends [OF loop] by simp
          then show ?thesis
            using Inr False inr True by (simp add: failed_messages_response)
        next
          case no: False
          then show ?thesis using Inr False inr Cons by simp
        qed
      qed
    qed
  qed
qed

subsection \<open>The result of the flush\<close>

text \<open>
  What \<open>Validate.Run\<close> returns: true exactly when nothing was sent, the response map
  is not empty, and the entry that the loop visits last is valid.
\<close>

lemma fold_Run_fst:
  "fst (fold (\<lambda>(name, r) (resp, s). (r, if silent then s else Validate_Effect name r s)) xs acc)
     = (if xs = [] then fst acc else snd (last xs))"
  by (induction xs arbitrary: acc) (auto split: prod.splits)

lemma Validate_Run_result:
  "fst (Validate_Run silent st)
     = (\<not> fst (Validate_Remote st) \<and> response st \<noteq> []
        \<and> parseResponse (snd (last (response st))) = ''valid'')"
proof (cases "Validate_Remote st")
  case (Pair sent st1)
  then have eq: "response st1 = response st"
    using Validate_Remote_response [of st] by simp
  obtain resp st2 where f: "fold (\<lambda>(name, r) (resp, s). (r, if silent then s else Validate_Effect name r s))
      (response st1) (Undefined, st1) = (resp, st2)"
    by (cases "fold (\<lambda>(name, r) (resp, s). (r, if silent then s else Validate_Effect name r s))
      (response st1) (Undefined, st1)")
  have "resp = (if response st1 = [] then Undefined else snd (last (response st1)))"
    using fold_Run_fst [of silent "response st1" "(Undefined, st1)"] f by simp
  then show ?thesis
    using Pair f eq by (auto simp: Validate_Run_def parseResponse_def)
qed

lemma Run_false_when_sent: "fst (Validate_Remote st) \<Longrightarrow> \<not> fst (Validate_Run silent st)"
  by (simp add: Validate_Run_result)

text \<open>
  Claim C1: the flush is to return true if and only if every field of the response map
  is valid. The variable that \<open>Validate.Run\<close> tests holds the entry visited last, and
  nothing of the others. On the sign-up page with a presence rule on the login and on
  the e-mail address, the login empty and the address filled in, \<open>Validate.All()\<close>
  records the error of the login and returns true.
\<close>

theorem Run_tells_the_last_field_only:
  "fst (Validate_All [] (script [Validates_Presence [''login'', ''email''] None] signup_page))
     = Inr True
   \<and> response (snd (Validate_All [] (script [Validates_Presence [''login'', ''email''] None]
         signup_page)))
     = [(''login'', Arr [Str ''can't be blank'']), (''email'', Str [])]"
  by code_simp

subsection \<open>The completed round trip\<close>

text \<open>
  Claim C2: on a completed round trip every entry of the payload is to be merged into
  \<open>GoodForm.Validate.response\<close> and presented. The handler presents the entries and
  merges none (\<open>onreadystatechange_response\<close> above says so for every event and state).
  With a remote rule on the e-mail address, \<open>Validate("email")\<close> and then the answer
  \<open>{"email": ["has already been taken"]}\<close> with status 200: the presenter is called
  with the answer, and the response map is empty.
\<close>

theorem completion_leaves_response_empty:
  "(let st0 = script [Validates_Ajax [''email''] None] (signup_page\<lparr>dispatched := [opened]\<rparr>);
        st1 = snd (Validate_Name ''email'' no_call_options st0);
        st2 = onreadystatechange
                (completed 200 [(''email'', Arr [Str ''has already been taken''])]) st1
    in trace st2 = [Request ''http://localhost/validate?email=a%40b.com'',
                    Report ''email'' Undefined,
                    Report ''email'' (Arr [Str ''has already been taken''])]
       \<and> response st2 = []
       \<and> get (response st2) ''email'' \<noteq> Arr [Str ''has already been taken''])"
  by code_simp

text \<open>A non-empty array of messages is an error, shown with its messages.\<close>

lemma array_is_error:
  "map className (document (onreadystatechange
       (completed 200 [(''email'', Arr [Str ''is invalid''])]) signup_page))
     = [[], [], ''good_form error'']
   \<and> map innerHTML (document (onreadystatechange
       (completed 200 [(''email'', Arr [Str ''is invalid''])]) signup_page))
     = [[], [], ''is invalid'']"
  by code_simp

text \<open>
  Claim C3: a \<open>null\<close> result is to be classified as valid, a non-empty array as
  invalid with its messages, anything else as valid. The array is classified as the
  claim says; \<open>null\<close> is not: \<open>null == undefined\<close> holds, so \<open>parseResponse\<close>
  answers \<open>loading\<close>, and the answer \<open>{"email": null}\<close> leaves the span of the e-mail
  address in the class \<open>loading\<close>.
\<close>

theorem null_result_is_loading:
  "parseResponse Null = ''loading''
   \<and> map className (document (onreadystatechange (completed 200 [(''email'', Null)])
        signup_page))
     = [[], [], ''good_form loading'']"
  by code_simp

subsection \<open>Remote before local\<close>

text \<open>
  Claim C4, as stated: when the remote dispatch of a field enqueued its value, the local
  rules of the field are not evaluated in that call. It fails on an empty value: the
  remote dispatch writes the empty string into the queue, returns it, and the caller,
  who tests the returned value for truth, runs the local dispatch as well.
\<close>

theorem remote_precedence_counterexample:
  "(let st0 = remote_page
    in getValuesByName ''login'' [] (document st0) = Str []
       \<and> queue (snd (Validate_Queue Remote ''login'' (Str []) st0)) = [(''login'', Str [])]
       \<and> response (snd (Validate_Name ''login'' no_call_options st0))
           = [(''login'', Arr [Str ''can't be blank''])])"
  by code_simp

text \<open>
  Claim C4, amended: in a call of \<open>Validate.Name\<close> without \<open>options.local\<close> on a field
  that has a value, when the remote dispatch returns a value that is true (a queued value
  that is not the empty string), the call raises nothing whatever the local rules are,
  and leaves the response map as it was at the start of the dispatch (empty, unless the
  call is deferred): the local dispatch has not run. So the local dispatch runs only
  when the remote dispatch returned nothing true.
\<close>

theorem remote_precedence:
  assumes "name = to_string (extractName input (document st0))"
    and "st1 = (if opt_defer options then st0 else st0\<lparr>response := []\<rparr>)"
    and "value = getValuesByName name (opt_scope options) (document st0)"
    and "\<not> eq_undefined value"
    and "\<not> opt_local options"
    and "Validate_Queue Remote name value st1 = (Inr queued, st2)"
    and "truthy queued"
  shows "(\<exists>result. fst (Validate_Name input options st0) = Inr result)
       \<and> response (snd (Validate_Name input options st0)) = response st1"
proof -
  have r2: "response st2 = response st1"
    using Validate_Queue_Remote_response [of name "value" st1] assms(6) by simp
  have doc: "document st1 = document st0"
    using assms(2) by simp
  show ?thesis
  proof (cases "opt_defer options")
    case True
    then show ?thesis
      using assms r2 by (simp add: Validate_Name_def Let_def)
  next
    case False
    obtain valid st4 where run: "Validate_Run (opt_silent options) st2 = (valid, st4)"
      by (cases "Validate_Run (opt_silent options) st2")
    then have "response st4 = response st2"
      using Validate_Run_response [of "opt_silent options" st2] by simp
    then show ?thesis
      using assms r2 False run by (simp add: Validate_Name_def Let_def)
  qed
qed

theorem remote_precedence_witness:
  "fst (Validate_Queue Remote ''email'' (Str ''a@b.com'') (remote_page\<lparr>response := []\<rparr>))
     = Inr (Str ''a@b.com'')
   \<and> (\<exists>result. fst (Validate_Name ''email'' no_call_options remote_page) = Inr result)
   \<and> response (snd (Validate_Name ''email'' no_call_options remote_page)) = []"
proof -
  let ?st1 = "remote_page\<lparr>response := []\<rparr>"
  have h1: "''email'' = to_string (extractName ''email'' (document remote_page))"
    by code_simp
  have h2: "?st1 = (if opt_defer no_call_options then remote_page else remote_page\<lparr>response := []\<rparr>)"
    by (simp add: no_call_options_def)
  have h3: "Str ''a@b.com'' = getValuesByName ''email'' (opt_scope no_call_options) (document remote_page)"
    by code_simp
  have h4: "\<not> eq_undefined (Str ''a@b.com'')"
    by simp
  have h5: "\<not> opt_local no_call_options"
    by (simp add: no_call_options_def)
  have f: "fst (Validate_Queue Remote ''email'' (Str ''a@b.com'') ?st1) = Inr (Str ''a@b.com'')"
    by code_simp
  then have h6: "Validate_Queue Remote ''email'' (Str ''a@b.com'') ?st1
      = (Inr (Str ''a@b.com''), snd (Validate_Queue Remote ''email'' (Str ''a@b.com'') ?st1))"
    by (simp add: prod_eq_iff)
  have h7: "truthy (Str ''a@b.com'')"
    by simp
  show ?thesis
    using remote_precedence [OF h1 h2 h3 h4 h5 h6 h7] f by simp
qed

subsection \<open>The loading phase\<close>

text \<open>
  Claim C5: in a flush every field of the batch is to be presented as pending exactly
  once. The handler presents the queue as pending on every event that is not a successful
  completion: the flag \<open>loadingState\<close> that is to stop it after the first is never
  set. On a host that dispatches \<open>readystatechange\<close> in \<open>open\<close> and again in
  \<open>send\<close>, the e-mail address is presented as pending twice in one flush.
\<close>

theorem pending_presented_twice:
  "trace (snd (Validate_Name ''email'' no_call_options
       (script [Validates_Ajax [''email''] None]
          (signup_page\<lparr>dispatched := [opened, opened]\<rparr>))))
     = [Request ''http://localhost/validate?email=a%40b.com'',
        Report ''email'' Undefined, Report ''email'' Undefined]"
  by code_simp

subsection \<open>A rule without its required option\<close>

text \<open>
  Claim C6, as stated: constructing a format rule with no pattern raises at once. It
  does not: \<open>Validates.Format("email")\<close> returns, the rule is registered, and the
  exception comes when the field is validated.
\<close>

theorem Format_without_pattern_counterexample:
  "(case Validates_Format [''email''] None signup_page of
      (Some e, st) \<Rightarrow> False
    | (None, st) \<Rightarrow>
        map length (map snd (local st)) = [1]
        \<and> fst (Validate_Name ''email'' no_call_options st) = Inl TypeError)"
  by code_simp

text \<open>
  On a name of \<open>Object.prototype\<close> the construction does raise, whatever the options
  are: the registry gives the inherited function, which has no \<open>push\<close>.
\<close>

lemma Format_on_inherited_name:
  "fst (Validates_Format [''constructor''] None signup_page) = Some TypeError
   \<and> fst (Validates_Format [''constructor'']
          (Some (no_options\<lparr>opt_with := Some (\<lambda>s. contains s ''@'')\<rparr>)) signup_page)
       = Some TypeError"
  by code_simp

text \<open>
  Claim C6, amended: constructing a format rule whose options hold no pattern, for field
  names that are not empty and not names of \<open>Object.prototype\<close>, raises nothing: it
  succeeds, the rule is registered as the last rule of each of the names, and it raises
  a \<open>TypeError\<close> whenever its predicate is evaluated, on every value; so does every
  rule that the construction adds to the registry. It never passes silently.
\<close>

theorem Format_without_pattern:
  assumes "extractOptions names config = Inr opts" and "opt_with opts = None"
    and "\<forall>arg \<in> set names. arg \<noteq> []
           \<and> map_of Object_prototype (to_string (extractName arg (document st))) = None"
  shows "\<exists>st'. Validates_Format names config st = (None, st')
           \<and> (\<forall>arg \<in> set names.
                 let k = to_string (extractName arg (document st))
                 in rules_of (local st') k \<noteq> []
                    \<and> (\<forall>value. validate (last (rules_of (local st') k)) value
                                   = Inl TypeError))
           \<and> (\<forall>name. \<forall>v \<in> set (rules_of (local st') name) - set (rules_of (local st) name).
                 \<forall>value. validate v value = Inl TypeError)"
proof -
  define this where "this = (if ''invalid'' \<noteq> [] \<and> message opts = None
      then opts\<lparr>message := map_of defaultErrorMessages ''invalid''\<rparr> else opts)"
  define v where "v = options.extend this (rule.fields (Format_validate this))"
  let ?st = "snd (register False names v st)"
  have "opt_with this = None"
    using assms(2) by (simp add: this_def)
  then have raises: "validate v value = Inl TypeError" for "value"
    by (simp add: v_def validate_extend Format_validate_def)
  have reg: "fst (register False names v st) = None
       \<and> (\<forall>arg \<in> set names.
             let k = to_string (extractName arg (document st))
             in rules_of (local ?st) k \<noteq> [] \<and> last (rules_of (local ?st) k) = v)"
    using assms(3) by (rule register_registers)
  then have "register False names
      ((\<lambda>v. options.extend v (rule.fields (Format_validate v))) this) st = (None, ?st)"
    by (simp add: prod_eq_iff v_def)
  then have run: "Validates_Format names config st = (None, ?st)"
    unfolding Validates_Format_def by (rule Validation_returns [OF assms(1) this_def])
  have last: "\<forall>arg \<in> set names.
      let k = to_string (extractName arg (document st))
      in rules_of (local ?st) k \<noteq> []
         \<and> (\<forall>value. validate (last (rules_of (local ?st) k)) value = Inl TypeError)"
    using reg raises by (simp add: Let_def)
  have new: "v' = v" if "v' \<in> set (rules_of (local ?st) name)"
      and "v' \<notin> set (rules_of (local st) name)" for v' name
  proof -
    obtain m where "rules_of (local ?st) name = rules_of (local st) name @ replicate m v"
      using register_appends [of names v st name] by blast
    then show ?thesis using that by auto
  qed
  have "\<forall>name. \<forall>v' \<in> set (rules_of (local ?st) name) - set (rules_of (local st) name).
      \<forall>value. validate v' value = Inl TypeError"
    using new raises by auto
  then show ?thesis
    using run last by blast
qed

theorem Format_without_pattern_witness:
  "extractOptions [''email''] None = Inr no_options \<and> opt_with no_options = None
   \<and> map_of Object_prototype (to_string (extractName ''email'' (document signup_page))) = None
   \<and> (\<exists>st'. Validates_Format [''email''] None signup_page = (None, st')
         \<and> rules_of (local st') ''email'' \<noteq> []
         \<and> (\<forall>value. validate (last (rules_of (local st') ''email'')) value = Inl TypeError))"
proof -
  have a: "extractOptions [''email''] None = Inr no_options"
    by (simp add: extractOptions_def)
  have b: "opt_with no_options = None"
    by (simp add: no_options_def)
  have k: "to_string (extractName ''email'' (document signup_page)) = ''email''"
    by code_simp
  have p: "map_of Object_prototype ''email'' = None"
    by code_simp
  have c: "\<forall>arg \<in> set [''email'']. arg \<noteq> []
      \<and> map_of Object_prototype (to_string (extractName arg (document signup_page))) = None"
    using k p by simp
  obtain st' where r: "Validates_Format [''email''] None signup_page = (None, st')"
    and l: "\<forall>arg \<in> set [''email''].
        let k = to_string (extractName arg (document signup_page))
        in rules_of (local st') k \<noteq> []
           \<and> (\<forall>value. validate (last (rules_of (local st') k)) value = Inl TypeError)"
    using Format_without_pattern [OF a b c] by blast
  have "rules_of (local st') ''email'' \<noteq> []
      \<and> (\<forall>value. validate (last (rules_of (local st') ''email'')) value = Inl TypeError)"
    using l k by (simp add: Let_def)
  then have e: "\<exists>st'. Validates_Format [''email''] None signup_page = (None, st')
      \<and> rules_of (local st') ''email'' \<noteq> []
      \<and> (\<forall>value. validate (last (rules_of (local st') ''email'')) value = Inl TypeError)"
    using r by blast
  show ?thesis
  proof (intro conjI)
    show "extractOptions [''email''] None = Inr no_options" by (rule a)
    show "opt_with no_options = None" by (rule b)
    show "map_of Object_prototype (to_string (extractName ''email'' (document signup_page))) = None"
      using k p by simp
    show "\<exists>st'. Validates_Format [''email''] None signup_page = (None, st')
      \<and> rules_of (local st') ''email'' \<noteq> []
      \<and> (\<forall>value. validate (last (rules_of (local st') ''email'')) value = Inl TypeError)"
      by (rule e)
  qed
qed

subsection \<open>The guards\<close>

text \<open>
  The value of a field is a string, an array of strings or \<open>undefined\<close>, never
  \<open>null\<close>: a field that is empty, or a lone box that is not checked, reads as the
  empty string, and that is the null value that the \<open>allowNull\<close> guard tests for
  (\<open>value == ""\<close>).
\<close>

lemma getValuesByName_not_null: "getValuesByName name form doc \<noteq> Null"
proof -
  have "(if length vals > 1 then Arr (map Str vals)
         else (case vals of [] \<Rightarrow> Undefined | v # _ \<Rightarrow> Str v)) \<noteq> Null" for vals
    by (simp split: list.split)
  then show ?thesis
    unfolding getValuesByName_def Let_def .
qed



text \<open>
  Claim C8: a rule with \<open>allowBlank\<close> is skipped on an empty or white-space value,
  whatever else it is configured with; a length rule with a minimum of 6 and
  \<open>allowBlank\<close> accepts the empty string.
\<close>

theorem allowBlank_skips:
  assumes "allowBlank v" and "blank (to_string value)"
  shows "Queue_loop type name value (v # vs) st = Queue_loop type name value vs st"
  using assms by (simp add: skipped_def)

theorem allowBlank_skips_witness:
  "allowBlank (hd (rules_of (local length_page) ''login''))
   \<and> minimum (hd (rules_of (local length_page) ''login'')) = Some 6
   \<and> blank (to_string (Str []))
   \<and> Queue_loop Local ''login'' (Str []) [hd (rules_of (local length_page) ''login'')] length_page
       = (None, length_page)
   \<and> fst (Validate_Name ''login'' no_call_options length_page) = Inr (Bool True)
   \<and> response (snd (Validate_Name ''login'' no_call_options length_page)) = [(''login'', Str [])]"
proof -
  have a: "allowBlank (hd (rules_of (local length_page) ''login''))"
    by code_simp
  have b: "blank (to_string (Str []))"
    by (simp add: blank_def)
  have c: "minimum (hd (rules_of (local length_page) ''login'')) = Some 6"
    by code_simp
  have d: "fst (Validate_Name ''login'' no_call_options length_page) = Inr (Bool True)"
    by code_simp
  have e: "response (snd (Validate_Name ''login'' no_call_options length_page)) = [(''login'', Str [])]"
    by code_simp
  have "Queue_loop Local ''login'' (Str []) [hd (rules_of (local length_page) ''login'')] length_page
      = (None, length_page)"
    using allowBlank_skips [OF a b, of Local "''login''" "[]" length_page]
    by (simp del: Queue_loop.simps(2))
  then show ?thesis
    using a b c d e by (simp del: Queue_loop.simps(2))
qed

text \<open>Without \<open>allowBlank\<close> the same rule rejects the empty login.\<close>

lemma Length_rejects_blank:
  "response (snd (Validate_Name ''login'' no_call_options
       (script [Validates_Length [''login''] (Some (no_options\<lparr>minimum := Some 6\<rparr>))]
          signup_page)))
     = [(''login'', Arr [Str ''is too short (minimum is 6 characters)''])]"
  by code_simp

subsection \<open>Several rules on one field\<close>

text \<open>
  Claim C9: the messages of the local rules of a field that fail in one dispatch
  accumulate in the response map in one list, in registration order, each appended after
  those already there. \<open>errs\<close> is what the field holds before the dispatch (nothing, or
  the errors so far).
\<close>

theorem errors_accumulate:
  assumes "name \<in> set (map fst (local st))"
    and "Validate_Queue Local name value st = (Inr result, st')"
    and "(if truthy (get (response st) name) then get (response st) name else Arr []) = Arr errs"
    and "errs @ failed_messages name value (rules_of (local st) name) st \<noteq> []"
  shows "get (response st') name
           = Arr (errs @ failed_messages name value (rules_of (local st) name) st)
       \<and> result = Arr (errs @ failed_messages name value (rules_of (local st) name) st)"
proof -
  obtain vs where vs: "map_of (local st) name = Some vs"
    using assms(1) by (cases "map_of (local st) name") (auto simp: map_of_eq_None_iff)
  then have rules: "rules_of (local st) name = vs"
    by (simp add: rules_of_def)
  have reg: "entry_of (local st) name = Registered vs"
    using vs by (rule entry_of_Registered)
  note assms = vs assms(2) assms(3) assms(4) [unfolded rules]
  obtain e st1 where loop: "Queue_loop Local name value vs st = (e, st1)"
    by (cases "Queue_loop Local name value vs st")
  have none: "e = None"
    using reg assms(2) loop by (cases e) (simp_all add: Validate_Queue_def)
  have acc: "get (response st1) name = Arr (errs @ failed_messages name value vs st)"
  proof (cases "truthy (get (response st) name)")
    case True
    then have "get (response st) name = Arr errs" using assms(3) by simp
    then show ?thesis using Queue_loop_appends loop none by simp
  next
    case False
    then have "errs = []" using assms(3) by simp
    then show ?thesis using Queue_loop_starts [of name "value" vs st st1] loop none False assms(4) by simp
  qed
  then have "truthy (get (response st1) name)" by simp
  then have "Validate_Queue Local name value st = (Inr (get (response st1) name), st1)"
    using reg loop none by (simp add: Validate_Queue_def Queue_return_def)
  then have "st' = st1" and "result = get (response st1) name"
    using assms(2) by simp_all
  then show ?thesis using acc rules by simp
qed

theorem errors_accumulate_witness:
  "''login'' \<in> set (map fst (local checked_page))
   \<and> failed_messages ''login'' (Str []) (rules_of (local checked_page) ''login'') checked_page
       = [Str ''can't be blank'', Str ''is invalid'']
   \<and> fst (Validate_Queue Local ''login'' (Str []) checked_page)
       = Inr (Arr [Str ''can't be blank'', Str ''is invalid''])
   \<and> get (response (snd (Validate_Queue Local ''login'' (Str []) checked_page))) ''login''
       = Arr [Str ''can't be blank'', Str ''is invalid'']"
proof -
  have h1: "''login'' \<in> set (map fst (local checked_page))"
    by code_simp
  have f: "fst (Validate_Queue Local ''login'' (Str []) checked_page)
      = Inr (Arr [Str ''can't be blank'', Str ''is invalid''])"
    by code_simp
  then have h2: "Validate_Queue Local ''login'' (Str []) checked_page
      = (Inr (Arr [Str ''can't be blank'', Str ''is invalid'']),
         snd (Validate_Queue Local ''login'' (Str []) checked_page))"
    by (simp add: prod_eq_iff)
  have h3: "(if truthy (get (response checked_page) ''login'')
             then get (response checked_page) ''login'' else Arr []) = Arr []"
    by code_simp
  have fm: "failed_messages ''login'' (Str []) (rules_of (local checked_page) ''login'') checked_page
      = [Str ''can't be blank'', Str ''is invalid'']"
    by code_simp
  then have h4: "[] @ failed_messages ''login'' (Str []) (rules_of (local checked_page) ''login'')
      checked_page \<noteq> []"
    by simp
  show ?thesis
    using errors_accumulate [OF h1 h2 h3 h4] h1 f fm by simp
qed

subsection \<open>The silent local check\<close>

text \<open>
  Claim C10, as stated: \<open>Validate.Local\<close> on a name with no registered local rule
  cannot return a boolean, where the dispatcher does nothing. It fails for the names
  that every object inherits: with no rule registered at all,
  \<open>Validate.Local("toString")\<close> finds the inherited function, reads no rule from it
  and returns true, and the dispatcher on \<open>constructor\<close> raises.
\<close>

theorem Local_unregistered_counterexample:
  "map fst (local signup_page) = []
   \<and> Validate_Local ''toString'' signup_page = Inr True
   \<and> fst (Validate_Queue Local ''constructor'' (Str ''x'') signup_page) = Inl TypeError"
  by code_simp

text \<open>
  Claim C10, amended: on a name for which \<open>GoodForm.local\<close> gives nothing, neither a
  registered list nor a function of \<open>Object.prototype\<close>, \<open>Validate.Local\<close> raises,
  where the dispatcher returns \<open>null\<close> and changes nothing.
\<close>

theorem Local_unregistered:
  assumes "map_of (local st) name = None" and "map_of Object_prototype name = None"
  shows "Validate_Local name st = Inl TypeError
       \<and> Validate_Queue Local name value st = (Inr Null, st)"
  using entry_of_Missing [OF assms] by (simp add: Validate_Local_def Validate_Queue_def)

theorem Local_unregistered_witness:
  "map_of (local GoodForm) ''login'' = None \<and> map_of Object_prototype ''login'' = None
   \<and> Validate_Local ''login'' GoodForm = Inl TypeError
   \<and> Validate_Queue Local ''login'' (Str ''bob'') GoodForm = (Inr Null, GoodForm)"
proof -
  have a: "map_of (local GoodForm) ''login'' = None"
    by (simp add: GoodForm_def)
  have b: "map_of Object_prototype ''login'' = None"
    by code_simp
  show ?thesis
    using Local_unregistered [OF a b, of "Str ''bob''"] a b by simp
qed

end
